theory Spec2Isabelle
  imports Complex_Main
begin

section \<open>Data model of \<^verbatim>\<open>src/core/light_source_controller.py\<close>\<close>

text \<open>
  The controller is a Python class with mutable fields that drives three collaborator
  objects (jet, optimizer, monitor) and a table of listeners. The embedding follows the
  class method by method:
  \<^item> the enum and the two dataclasses become a datatype and two records;
  \<^item> a Python float is a real number, one of the two infinities, or NaN, with the
    comparisons of IEEE 754 (every comparison with NaN is false); the controller only
    compares floats and hands them on, so rounding plays no role;
  \<^item> the object's fields are a record, passed in and returned;
  \<^item> a raised exception is the \<open>Inl\<close> branch of the result, and \<^verbatim>\<open>try/except Exception\<close>
    is the combinator \<open>try_except\<close>;
  \<^item> the collaborators and the listeners are opaque: an environment answers every call
    from the state of the outside world (which it may change), with a returned boolean
    or with an exception. Listeners do not call back into the controller.
  Every call to the outside, every publication of an event and every log line is appended
  to a trace, so that what an operation did can be stated.
\<close>

datatype pyfloat = NegInf | Finite real | PosInf | NaN

text \<open>\<^verbatim>\<open>a < b\<close>, \<^verbatim>\<open>a <= b\<close> and \<^verbatim>\<open>a > b\<close> on floats.\<close>

fun float_lt :: "pyfloat \<Rightarrow> pyfloat \<Rightarrow> bool" where
  "float_lt (Finite x) (Finite y) = (x < y)"
| "float_lt (Finite x) PosInf = True"
| "float_lt NegInf (Finite y) = True"
| "float_lt NegInf PosInf = True"
| "float_lt a b = False"

definition float_le :: "pyfloat \<Rightarrow> pyfloat \<Rightarrow> bool" where
  "float_le a b = (float_lt a b \<or> (a = b \<and> a \<noteq> NaN))"

definition float_gt :: "pyfloat \<Rightarrow> pyfloat \<Rightarrow> bool" where
  "float_gt a b = float_lt b a"

text \<open>\<^verbatim>\<open>a * b\<close> on floats, without rounding.\<close>

fun float_mul :: "pyfloat \<Rightarrow> pyfloat \<Rightarrow> pyfloat" where
  "float_mul NaN b = NaN"
| "float_mul a NaN = NaN"
| "float_mul (Finite x) (Finite y) = Finite (x * y)"
| "float_mul (Finite x) PosInf = (if x = 0 then NaN else if 0 < x then PosInf else NegInf)"
| "float_mul (Finite x) NegInf = (if x = 0 then NaN else if 0 < x then NegInf else PosInf)"
| "float_mul PosInf (Finite y) = (if y = 0 then NaN else if 0 < y then PosInf else NegInf)"
| "float_mul NegInf (Finite y) = (if y = 0 then NaN else if 0 < y then NegInf else PosInf)"
| "float_mul PosInf PosInf = PosInf"
| "float_mul NegInf NegInf = PosInf"
| "float_mul PosInf NegInf = NegInf"
| "float_mul NegInf PosInf = NegInf"

datatype LightSourceState = OFF | STANDBY | CALIBRATING | READY | EMITTING | ERROR

record LightSourceConfig =
  wavelength :: pyfloat
  max_power :: pyfloat
  stability_target :: pyfloat
  warmup_time :: pyfloat
  calibration_interval :: int

text \<open>The field \<^verbatim>\<open>power\<close> of the source is \<open>power_req\<close> here (\<open>power\<close> is HOL's exponentiation).\<close>

record EmissionParameters =
  power_req :: pyfloat
  duration :: pyfloat
  frequency :: pyfloat
  duty_cycle :: pyfloat

text \<open>
  What a listener receives. The state-change dictionary of the source also carries
  \<^verbatim>\<open>time.time()\<close>; the clock is part of the outside world and is not copied into the payload.
\<close>

datatype payload = StateChange LightSourceState LightSourceState | PowerValue pyfloat

type_synonym listener = nat

datatype call =
    Jet_initialize
  | Jet_shutdown
  | Jet_calibrate
  | Jet_configure_emission EmissionParameters
  | Opt_warm_up
  | Opt_shutdown
  | Opt_calibrate
  | Opt_start_real_time_optimization
  | Opt_stop_real_time_optimization
  | Opt_adjust_power pyfloat
  | Opt_prepare_for_power pyfloat
  | Opt_configure_optimization EmissionParameters
  | Mon_calibrate_sensors
  | Mon_start_power_monitoring
  | Mon_stop_power_monitoring
  | Mon_configure_monitoring EmissionParameters
  | Mon_get_current_metrics
  | Jet_get_status
  | Opt_get_status
  | Mon_get_status
  | Sleep nat
  | Callback listener payload

datatype reply = Returns bool | Raises

datatype error =
    ValueError_power
  | ValueError_duration
  | ValueError_frequency
  | ValueError_duty_cycle
  | Raised call

datatype level = LogInfo | LogWarning | LogError

datatype effect = Called call reply | Published string payload | Logged level

text \<open>
  The fields of \<^verbatim>\<open>QuantumLightSourceController\<close>. \<^verbatim>\<open>performance_metrics\<close> is set to the empty
  dictionary by the constructor and never read or written again; it is left out. \<open>world\<close>
  is the state of the three subsystem objects and of everything else outside the
  controller; \<open>trace\<close> is the record of effects.
\<close>

record 'w controller =
  config :: LightSourceConfig
  state :: LightSourceState
  current_power :: pyfloat
  operating_time :: pyfloat
  callbacks :: "string \<rightharpoonup> listener list"
  world :: 'w
  trace :: "effect list"

type_synonym 'w env = "call \<Rightarrow> 'w \<Rightarrow> reply \<times> 'w"

type_synonym ('w, 'a) action = "'w controller \<Rightarrow> (error + 'a) \<times> 'w controller"

section \<open>Statements, sequencing and exceptions\<close>

definition ret :: "'a \<Rightarrow> ('w, 'a) action" where
  "ret x s = (Inr x, s)"

definition raise :: "error \<Rightarrow> ('w, 'a) action" where
  "raise e s = (Inl e, s)"

definition andThen :: "('w, 'a) action \<Rightarrow> ('a \<Rightarrow> ('w, 'b) action) \<Rightarrow> ('w, 'b) action" where
  "andThen m f s = (case m s of (Inl e, s') \<Rightarrow> (Inl e, s') | (Inr x, s') \<Rightarrow> f x s')"

fun seqs :: "('w, unit) action list \<Rightarrow> ('w, unit) action" where
  "seqs [] = ret ()"
| "seqs (m # ms) = andThen m (\<lambda>_. seqs ms)"

definition try_except :: "('w, 'a) action \<Rightarrow> (error \<Rightarrow> ('w, 'a) action) \<Rightarrow> ('w, 'a) action" where
  "try_except m h s = (case m s of (Inl e, s') \<Rightarrow> h e s' | (Inr x, s') \<Rightarrow> (Inr x, s'))"

text \<open>Evaluating an expression over the current fields, as in \<^verbatim>\<open>x = self.f\<close>.\<close>

definition reading :: "('w controller \<Rightarrow> 'b) \<Rightarrow> ('b \<Rightarrow> ('w, 'a) action) \<Rightarrow> ('w, 'a) action" where
  "reading f k s = k (f s) s"

definition assign :: "('w controller \<Rightarrow> 'w controller) \<Rightarrow> ('w, unit) action" where
  "assign f s = (Inr (), f s)"

definition logging :: "level \<Rightarrow> ('w, unit) action" where
  "logging lvl s = (Inr (), s\<lparr>trace := trace s @ [Logged lvl]\<rparr>)"

text \<open>A call of a collaborator method (or of a listener) whose result is used.\<close>

definition invoke :: "'w env \<Rightarrow> call \<Rightarrow> ('w, bool) action" where
  "invoke env c s =
     (case env c (world s) of
        (Returns b, w) \<Rightarrow> (Inr b, s\<lparr>world := w, trace := trace s @ [Called c (Returns b)]\<rparr>)
      | (Raises, w) \<Rightarrow> (Inl (Raised c), s\<lparr>world := w, trace := trace s @ [Called c Raises]\<rparr>))"

text \<open>A call whose result is dropped.\<close>

definition perform :: "'w env \<Rightarrow> call \<Rightarrow> ('w, unit) action" where
  "perform env c = andThen (invoke env c) (\<lambda>_. ret ())"

section \<open>The callback bus\<close>

text \<open>
  \<^verbatim>\<open>register_callback\<close>: appends to the list of a known event, does nothing for any other
  event name.
\<close>

definition register_callback :: "string \<Rightarrow> listener \<Rightarrow> 'w controller \<Rightarrow> 'w controller" where
  "register_callback event callback s =
     (case callbacks s event of
        None \<Rightarrow> s
      | Some cbs \<Rightarrow> s\<lparr>callbacks := (callbacks s)(event \<mapsto> cbs @ [callback])\<rparr>)"

text \<open>The loop of \<^verbatim>\<open>_trigger_callbacks\<close>: each listener is called inside its own \<^verbatim>\<open>try\<close>.\<close>

fun run_callbacks :: "'w env \<Rightarrow> payload \<Rightarrow> listener list \<Rightarrow> ('w, unit) action" where
  "run_callbacks env data [] = ret ()"
| "run_callbacks env data (callback # rest) =
     andThen (try_except (perform env (Callback callback data)) (\<lambda>e. logging LogError))
       (\<lambda>_. run_callbacks env data rest)"

text \<open>
  \<^verbatim>\<open>_trigger_callbacks\<close>. The entry \<open>Published event data\<close> marks the call itself in the
  trace; \<^verbatim>\<open>self._callbacks.get(event, [])\<close> is the empty list for an unknown event.
\<close>

definition trigger_callbacks :: "'w env \<Rightarrow> string \<Rightarrow> payload \<Rightarrow> ('w, unit) action" where
  "trigger_callbacks env event data =
     andThen (assign (\<lambda>s. s\<lparr>trace := trace s @ [Published event data]\<rparr>))
       (\<lambda>_ s. run_callbacks env data (case callbacks s event of None \<Rightarrow> [] | Some cbs \<Rightarrow> cbs) s)"

definition update_state :: "'w env \<Rightarrow> LightSourceState \<Rightarrow> ('w, unit) action" where
  "update_state env new_state s =
     (let old_state = state s in
      andThen (assign (\<lambda>s. s\<lparr>state := new_state\<rparr>))
        (\<lambda>_. trigger_callbacks env ''state_change'' (StateChange old_state new_state)) s)"

section \<open>The controller's operations\<close>

definition init :: "LightSourceConfig \<Rightarrow> 'w \<Rightarrow> 'w controller" where
  "init cfg w =
     \<lparr>config = cfg, state = OFF, current_power = Finite 0, operating_time = Finite 0,
      callbacks = [''state_change'' \<mapsto> [], ''power_update'' \<mapsto> [], ''error'' \<mapsto> []],
      world = w, trace = [Logged LogInfo]\<rparr>"

definition warmup_steps :: "(pyfloat \<times> nat) list" where
  "warmup_steps =
     [(Finite (1 / 10), 5), (Finite (3 / 10), 10), (Finite (6 / 10), 10), (Finite (8 / 10), 5)]"

fun warmup_loop :: "'w env \<Rightarrow> (pyfloat \<times> nat) list \<Rightarrow> ('w, unit) action" where
  "warmup_loop env [] = ret ()"
| "warmup_loop env ((power_ratio, dur) # rest) =
     reading (\<lambda>s. float_mul (max_power (config s)) power_ratio) (\<lambda>target_power.
     andThen (perform env (Opt_prepare_for_power target_power)) (\<lambda>_.
     andThen (perform env (Sleep dur)) (\<lambda>_.
     warmup_loop env rest)))"

definition execute_warmup_sequence :: "'w env \<Rightarrow> ('w, unit) action" where
  "execute_warmup_sequence env = andThen (logging LogInfo) (\<lambda>_. warmup_loop env warmup_steps)"

definition validate_emission_parameters :: "EmissionParameters \<Rightarrow> ('w, unit) action" where
  "validate_emission_parameters params s =
     (if float_le (power_req params) (Finite 0) \<or> float_gt (power_req params) (max_power (config s))
        then raise ValueError_power s
      else if float_lt (duration params) (Finite 0) then raise ValueError_duration s
      else if float_lt (frequency params) (Finite 0) then raise ValueError_frequency s
      else if float_le (duty_cycle params) (Finite 0) \<or> float_gt (duty_cycle params) (Finite 1)
        then raise ValueError_duty_cycle s
      else ret () s)"

definition apply_emission_parameters :: "'w env \<Rightarrow> EmissionParameters \<Rightarrow> ('w, unit) action" where
  "apply_emission_parameters env params =
     seqs [perform env (Jet_configure_emission params),
           perform env (Opt_configure_optimization params),
           perform env (Mon_configure_monitoring params)]"

definition power_on :: "'w env \<Rightarrow> ('w, bool) action" where
  "power_on env s =
     (if state s \<noteq> OFF then andThen (logging LogWarning) (\<lambda>_. ret False) s
      else
        try_except
          (andThen
             (seqs [logging LogInfo,
                    update_state env STANDBY,
                    perform env Jet_initialize,
                    perform env Opt_warm_up,
                    execute_warmup_sequence env,
                    update_state env READY,
                    logging LogInfo])
             (\<lambda>_. ret True))
          (\<lambda>e. andThen (seqs [logging LogError, update_state env ERROR]) (\<lambda>_. ret False)) s)"

definition stop_emission :: "'w env \<Rightarrow> ('w, unit) action" where
  "stop_emission env s =
     (if state s = EMITTING
        then seqs [logging LogInfo,
                   perform env Opt_stop_real_time_optimization,
                   perform env Mon_stop_power_monitoring,
                   update_state env READY,
                   assign (\<lambda>s. s\<lparr>current_power := Finite 0\<rparr>),
                   logging LogInfo] s
      else ret () s)"

definition power_off :: "'w env \<Rightarrow> ('w, unit) action" where
  "power_off env =
     seqs [logging LogInfo,
           stop_emission env,
           perform env Opt_shutdown,
           perform env Jet_shutdown,
           update_state env OFF,
           assign (\<lambda>s. s\<lparr>current_power := Finite 0\<rparr>),
           logging LogInfo]"

definition start_emission :: "'w env \<Rightarrow> EmissionParameters \<Rightarrow> ('w, bool) action" where
  "start_emission env params s =
     (if state s \<noteq> READY then andThen (logging LogError) (\<lambda>_. ret False) s
      else
        try_except
          (andThen
             (seqs [validate_emission_parameters params,
                    apply_emission_parameters env params,
                    perform env Opt_start_real_time_optimization,
                    update_state env EMITTING,
                    assign (\<lambda>s. s\<lparr>current_power := power_req params\<rparr>),
                    logging LogInfo,
                    perform env Mon_start_power_monitoring])
             (\<lambda>_. ret True))
          (\<lambda>e. andThen (logging LogError) (\<lambda>_. ret False)) s)"

definition set_power :: "'w env \<Rightarrow> pyfloat \<Rightarrow> ('w, bool) action" where
  "set_power env pw s =
     (if float_lt pw (Finite 0) \<or> float_gt pw (max_power (config s)) then andThen (logging LogError) (\<lambda>_. ret False) s
      else if state s \<noteq> EMITTING then andThen (logging LogError) (\<lambda>_. ret False) s
      else
        try_except
          (andThen (invoke env (Opt_adjust_power pw))
             (\<lambda>success.
                andThen
                  (if success
                     then seqs [assign (\<lambda>s. s\<lparr>current_power := pw\<rparr>),
                                trigger_callbacks env ''power_update'' (PowerValue pw),
                                logging LogInfo]
                   else ret ())
                  (\<lambda>_. ret success)))
          (\<lambda>e. andThen (logging LogError) (\<lambda>_. ret False)) s)"

definition calibrate :: "'w env \<Rightarrow> ('w, bool) action" where
  "calibrate env =
     andThen (logging LogInfo) (\<lambda>_.
     andThen (update_state env CALIBRATING) (\<lambda>_.
       try_except
         (andThen (invoke env Jet_calibrate) (\<lambda>quantum_jet.
          andThen (invoke env Opt_calibrate) (\<lambda>optimizer.
          andThen (invoke env Mon_calibrate_sensors) (\<lambda>sensors.
            if quantum_jet \<and> optimizer \<and> sensors
              then andThen (seqs [update_state env READY, logging LogInfo]) (\<lambda>_. ret True)
            else andThen (seqs [logging LogError, update_state env ERROR]) (\<lambda>_. ret False)))))
         (\<lambda>e. andThen (seqs [logging LogError, update_state env ERROR]) (\<lambda>_. ret False))))"

text \<open>
  \<^verbatim>\<open>get_status\<close>: the four fields read from the controller. The metrics and the three
  status descriptors are values of the collaborators: the calls that fetch them are made,
  in the order of the dictionary, and what they return is not kept.
\<close>

record status =
  status_state :: LightSourceState
  status_current_power :: pyfloat
  status_operating_time :: pyfloat
  status_wavelength :: pyfloat

definition get_status :: "'w env \<Rightarrow> ('w, status) action" where
  "get_status env =
     reading
       (\<lambda>s. \<lparr>status_state = state s, status_current_power = current_power s,
             status_operating_time = operating_time s, status_wavelength = wavelength (config s)\<rparr>)
       (\<lambda>st.
          andThen
            (seqs [perform env Mon_get_current_metrics,
                   perform env Jet_get_status,
                   perform env Opt_get_status,
                   perform env Mon_get_status])
            (\<lambda>_. ret st))"

section \<open>The caller of \<^verbatim>\<open>examples/quick_demo.py\<close>\<close>

text \<open>
  The loop that follows \<^verbatim>\<open>start_emission\<close> in \<^verbatim>\<open>quick_start\<close>, whose parameters carry the
  comment that the emission stops by itself after 3 seconds: up to \<open>n\<close> times (5 in the
  source) it reads the status, sleeps one second, and leaves the loop when the status
  read is no longer \<open>EMITTING\<close>.
\<close>

fun poll_status :: "'w env \<Rightarrow> nat \<Rightarrow> ('w, unit) action" where
  "poll_status env 0 = ret ()"
| "poll_status env (Suc n) =
     andThen (get_status env) (\<lambda>st.
     andThen (perform env (Sleep 1)) (\<lambda>_.
     if status_state st \<noteq> EMITTING then ret () else poll_status env n))"

section \<open>Reading the trace\<close>

fun is_callback :: "call \<Rightarrow> bool" where
  "is_callback (Callback l d) = True"
| "is_callback c = False"

fun published :: "effect list \<Rightarrow> (string \<times> payload) list" where
  "published [] = []"
| "published (Published ev d # t) = (ev, d) # published t"
| "published (x # t) = published t"

fun collaborator_calls :: "effect list \<Rightarrow> (call \<times> reply) list" where
  "collaborator_calls [] = []"
| "collaborator_calls (Called c r # t) =
     (if is_callback c then collaborator_calls t else (c, r) # collaborator_calls t)"
| "collaborator_calls (x # t) = collaborator_calls t"

fun listener_calls :: "effect list \<Rightarrow> (listener \<times> payload) list" where
  "listener_calls [] = []"
| "listener_calls (Called (Callback l d) r # t) = (l, d) # listener_calls t"
| "listener_calls (x # t) = listener_calls t"

definition registered :: "'w controller \<Rightarrow> string \<Rightarrow> listener list" where
  "registered s event = (case callbacks s event of None \<Rightarrow> [] | Some cbs \<Rightarrow> cbs)"

fun callbacks_run :: "'w env \<Rightarrow> payload \<Rightarrow> listener list \<Rightarrow> 'w \<Rightarrow> 'w \<times> effect list" where
  "callbacks_run env data [] w = (w, [])"
| "callbacks_run env data (l # ls) w =
     (case env (Callback l data) w of
        (r, w') \<Rightarrow>
          (case callbacks_run env data ls w' of
             (w'', t) \<Rightarrow>
               (w'', Called (Callback l data) r # (case r of Raises \<Rightarrow> [Logged LogError] | Returns b \<Rightarrow> []) @ t)))"

text \<open>What a run from \<open>s\<close> to \<open>s'\<close> appended to the trace.\<close>

definition new_effects :: "'w controller \<Rightarrow> 'w controller \<Rightarrow> effect list" where
  "new_effects s s' = drop (length (trace s)) (trace s')"

section \<open>Predicates of the specification\<close>

text \<open>
  The power invariant of the specification: \<open>current_power\<close> is 0 outside \<open>EMITTING\<close> and
  lies in \<open>(0, max_power]\<close> in \<open>EMITTING\<close>.
\<close>

definition power_invariant :: "'w controller \<Rightarrow> bool" where
  "power_invariant s =
     (if state s = EMITTING
        then float_lt (Finite 0) (current_power s) \<and> float_le (current_power s) (max_power (config s))
      else current_power s = Finite 0)"

text \<open>Valid emission parameters, in the words of the specification.\<close>

definition valid_emission_parameters :: "LightSourceConfig \<Rightarrow> EmissionParameters \<Rightarrow> bool" where
  "valid_emission_parameters cfg params =
     (float_lt (Finite 0) (power_req params) \<and> float_le (power_req params) (max_power cfg) \<and>
      float_le (Finite 0) (duration params) \<and> float_le (Finite 0) (frequency params) \<and>
      float_lt (Finite 0) (duty_cycle params) \<and> float_le (duty_cycle params) (Finite 1))"

text \<open>
  Parameters that fail validation, in the words of the specification: power \<open>\<le> 0\<close> or
  \<open>> max_power\<close>, or duration \<open>< 0\<close>, or frequency \<open>< 0\<close>, or duty cycle \<open>\<le> 0\<close> or \<open>> 1\<close>.
\<close>

definition fails_validation :: "LightSourceConfig \<Rightarrow> EmissionParameters \<Rightarrow> bool" where
  "fails_validation cfg params =
     (float_le (power_req params) (Finite 0) \<or> float_gt (power_req params) (max_power cfg) \<or>
      float_lt (duration params) (Finite 0) \<or> float_lt (frequency params) (Finite 0) \<or>
      float_le (duty_cycle params) (Finite 0) \<or> float_gt (duty_cycle params) (Finite 1))"

text \<open>
  A collaborator call succeeds when it does not raise and, for the four methods whose
  result the controller tests, returns true. Nothing is asked of listeners.
\<close>

fun reports_success :: "call \<Rightarrow> reply \<Rightarrow> bool" where
  "reports_success (Callback l d) r = True"
| "reports_success Jet_calibrate r = (r = Returns True)"
| "reports_success Opt_calibrate r = (r = Returns True)"
| "reports_success Mon_calibrate_sensors r = (r = Returns True)"
| "reports_success (Opt_adjust_power pw) r = (r = Returns True)"
| "reports_success c r = (r \<noteq> Raises)"

definition collaborators_succeed :: "'w env \<Rightarrow> bool" where
  "collaborators_succeed env = (\<forall>c w. reports_success c (fst (env c w)))"


section \<open>Concrete collaborators and inputs\<close>

text \<open>
  The subsystem classes at the end of the source file: \<^verbatim>\<open>calibrate\<close>, \<^verbatim>\<open>calibrate_sensors\<close>
  and \<^verbatim>\<open>adjust_power\<close> return \<^verbatim>\<open>True\<close>, the status methods return a non-empty dictionary
  (true as a truth value), every other method is \<^verbatim>\<open>pass\<close> (it returns \<^verbatim>\<open>None\<close>, which is
  false as a truth value). They keep no state. Listeners return \<^verbatim>\<open>None\<close> as well.
\<close>

fun stub_reply :: "call \<Rightarrow> reply" where
  "stub_reply Jet_calibrate = Returns True"
| "stub_reply Opt_calibrate = Returns True"
| "stub_reply Mon_calibrate_sensors = Returns True"
| "stub_reply (Opt_adjust_power pw) = Returns True"
| "stub_reply Mon_get_current_metrics = Returns True"
| "stub_reply Jet_get_status = Returns True"
| "stub_reply Opt_get_status = Returns True"
| "stub_reply Mon_get_status = Returns True"
| "stub_reply c = Returns False"

definition stub_subsystems :: "unit env" where
  "stub_subsystems c w = (stub_reply c, w)"

text \<open>The same collaborators, except that the call \<open>c\<close> is answered by \<open>r\<close>.\<close>

definition stub_except :: "call \<Rightarrow> reply \<Rightarrow> unit env" where
  "stub_except c r c' w = (if c' = c then (r, w) else stub_subsystems c' w)"

text \<open>The defaults of \<^verbatim>\<open>LightSourceConfig\<close>, and the parameters of \<^verbatim>\<open>examples/basic_demo.py\<close>.\<close>

definition default_config :: LightSourceConfig where
  "default_config =
     \<lparr>wavelength = Finite (58 / 10 ^ 10), max_power = Finite (5 / 10 ^ 9),
      stability_target = Finite (1 / 100), warmup_time = Finite 30, calibration_interval = 3600\<rparr>"

definition demo_params :: EmissionParameters where
  "demo_params =
     \<lparr>power_req = Finite (25 / 10 ^ 10), duration = Finite 5, frequency = Finite 0,
      duty_cycle = Finite 1\<rparr>"

text \<open>The controller after \<^verbatim>\<open>power_on()\<close>, and after \<^verbatim>\<open>start_emission(demo_params)\<close>.\<close>

definition ready_controller :: "unit controller" where
  "ready_controller = snd (power_on stub_subsystems (init default_config ()))"

definition emitting_controller :: "unit controller" where
  "emitting_controller = snd (start_emission stub_subsystems demo_params ready_controller)"

text \<open>A request above \<open>max_power\<close>: 6 nW against the default 5 nW.\<close>

definition excessive_params :: EmissionParameters where
  "excessive_params =
     \<lparr>power_req = Finite (6 / 10 ^ 9), duration = Finite 0, frequency = Finite 0,
      duty_cycle = Finite 1\<rparr>"

text \<open>A fresh controller with the listeners 1 and 2 registered, in this order, for state changes.\<close>

definition two_listeners :: "unit controller" where
  "two_listeners =
     register_callback ''state_change'' 2 (register_callback ''state_change'' 1 (init default_config ()))"


text \<open>
  \<^verbatim>\<open>examples/quick_demo.py\<close> up to the end of \<^verbatim>\<open>start_emission\<close>: a controller with the
  default configuration, a listener for state changes and one for power updates,
  \<^verbatim>\<open>power_on\<close>, \<^verbatim>\<open>calibrate\<close>, and an emission of 2.5 nW with duration 3 seconds.
\<close>

definition quick_demo_params :: EmissionParameters where
  "quick_demo_params =
     \<lparr>power_req = Finite (25 / 10 ^ 10), duration = Finite 3, frequency = Finite 0,
      duty_cycle = Finite 1\<rparr>"

definition quick_demo_emitting :: "unit controller" where
  "quick_demo_emitting =
     snd (start_emission stub_subsystems quick_demo_params
       (snd (calibrate stub_subsystems
         (snd (power_on stub_subsystems
           (register_callback ''power_update'' 2
             (register_callback ''state_change'' 1 (init default_config ()))))))))"

section \<open>Outcome of an action from a given state\<close>

text \<open>\<open>post m s Q\<close>: running \<open>m\<close> from \<open>s\<close> ends with a result and a state that satisfy \<open>Q\<close>.\<close>

definition post :: "('w, 'a) action \<Rightarrow> 'w controller \<Rightarrow> (error + 'a \<Rightarrow> 'w controller \<Rightarrow> bool) \<Rightarrow> bool" where
  "post m s Q = (case m s of (r, s') \<Rightarrow> Q r s')"

section \<open>Comparisons of floats\<close>

lemma float_le_Finite: "float_le (Finite x) (Finite y) = (x \<le> y)"
  by (auto simp add: float_le_def)

lemma float_gt_Finite: "float_gt (Finite x) (Finite y) = (y < x)"
  by (simp add: float_gt_def)

lemma float_lt_not_le: "float_lt a b \<Longrightarrow> \<not> float_le b a"
  by (cases a; cases b) (auto simp add: float_le_def)

lemma float_le_not_lt: "float_le a b \<Longrightarrow> \<not> float_lt b a"
  by (cases a; cases b) (auto simp add: float_le_def)

lemma float_not_le_lt: "a \<noteq> NaN \<Longrightarrow> b \<noteq> NaN \<Longrightarrow> \<not> float_le a b \<Longrightarrow> float_lt b a"
  by (cases a; cases b) (auto simp add: float_le_def)

lemma float_not_lt_le: "a \<noteq> NaN \<Longrightarrow> b \<noteq> NaN \<Longrightarrow> \<not> float_lt a b \<Longrightarrow> float_le b a"
  by (cases a; cases b) (auto simp add: float_le_def)

lemma float_le_neq_lt: "float_le a b \<Longrightarrow> a \<noteq> b \<Longrightarrow> float_lt a b"
  by (auto simp add: float_le_def)

lemma float_le_not_NaN: "float_le a b \<Longrightarrow> a \<noteq> NaN \<and> b \<noteq> NaN"
  by (cases a; cases b) (auto simp add: float_le_def)

section \<open>Rules for the outcome of an action\<close>

lemma post_ret: "post (ret x) s Q = Q (Inr x) s"
  by (simp add: post_def ret_def)

lemma post_raise: "post (raise e) s Q = Q (Inl e) s"
  by (simp add: post_def raise_def)

lemma post_andThen:
  "post (andThen m f) s Q =
     post m s (\<lambda>r s'. case r of Inl e \<Rightarrow> Q (Inl e) s' | Inr x \<Rightarrow> post (f x) s' Q)"
  by (simp add: post_def andThen_def split: prod.splits sum.splits)

lemma post_try_except:
  "post (try_except m h) s Q =
     post m s (\<lambda>r s'. case r of Inl e \<Rightarrow> post (h e) s' Q | Inr x \<Rightarrow> Q (Inr x) s')"
  by (simp add: post_def try_except_def split: prod.splits sum.splits)

lemma post_assign: "post (assign f) s Q = Q (Inr ()) (f s)"
  by (simp add: post_def assign_def)

lemma post_logging: "post (logging lvl) s Q = Q (Inr ()) (s\<lparr>trace := trace s @ [Logged lvl]\<rparr>)"
  by (simp add: post_def logging_def)

lemma post_invoke:
  "post (invoke env c) s Q =
     (case env c (world s) of
        (Returns b, w) \<Rightarrow> Q (Inr b) (s\<lparr>world := w, trace := trace s @ [Called c (Returns b)]\<rparr>)
      | (Raises, w) \<Rightarrow> Q (Inl (Raised c)) (s\<lparr>world := w, trace := trace s @ [Called c Raises]\<rparr>))"
  by (simp add: post_def invoke_def split: prod.splits reply.splits)

lemma post_perform:
  "post (perform env c) s Q =
     (case env c (world s) of
        (Returns b, w) \<Rightarrow> Q (Inr ()) (s\<lparr>world := w, trace := trace s @ [Called c (Returns b)]\<rparr>)
      | (Raises, w) \<Rightarrow> Q (Inl (Raised c)) (s\<lparr>world := w, trace := trace s @ [Called c Raises]\<rparr>))"
  by (simp add: perform_def post_andThen post_invoke post_ret split: prod.splits reply.splits)

lemma post_reading: "post (reading f k) s Q = post (k (f s)) s Q"
  by (simp add: post_def reading_def)

lemma run_callbacks_eq:
  "run_callbacks env data ls s =
     (Inr (), s\<lparr>world := fst (callbacks_run env data ls (world s)),
                trace := trace s @ snd (callbacks_run env data ls (world s))\<rparr>)"
proof (induction ls arbitrary: s)
  case Nil
  show ?case by (simp add: ret_def)
next
  case (Cons l ls)
  show ?case
    by (simp add: andThen_def try_except_def perform_def invoke_def ret_def logging_def Cons
        split: prod.splits reply.splits sum.splits)
qed

lemma trigger_callbacks_eq:
  "trigger_callbacks env event data s =
     (Inr (), s\<lparr>world := fst (callbacks_run env data (registered s event) (world s)),
                trace := trace s @ Published event data #
                         snd (callbacks_run env data (registered s event) (world s))\<rparr>)"
  by (simp add: trigger_callbacks_def andThen_def assign_def run_callbacks_eq registered_def)

lemma post_trigger_callbacks:
  "post (trigger_callbacks env event data) s Q =
     Q (Inr ()) (s\<lparr>world := fst (callbacks_run env data (registered s event) (world s)),
                   trace := trace s @ Published event data #
                            snd (callbacks_run env data (registered s event) (world s))\<rparr>)"
  by (simp add: post_def trigger_callbacks_eq)

lemma update_state_eq:
  "update_state env new_state s =
     (Inr (), s\<lparr>state := new_state,
                world := fst (callbacks_run env (StateChange (state s) new_state)
                                (registered s ''state_change'') (world s)),
                trace := trace s @ Published ''state_change'' (StateChange (state s) new_state) #
                         snd (callbacks_run env (StateChange (state s) new_state)
                                (registered s ''state_change'') (world s))\<rparr>)"
  by (simp add: update_state_def Let_def andThen_def assign_def trigger_callbacks_eq registered_def)

lemma post_update_state:
  "post (update_state env new_state) s Q =
     Q (Inr ()) (s\<lparr>state := new_state,
                   world := fst (callbacks_run env (StateChange (state s) new_state)
                                   (registered s ''state_change'') (world s)),
                   trace := trace s @ Published ''state_change'' (StateChange (state s) new_state) #
                            snd (callbacks_run env (StateChange (state s) new_state)
                                   (registered s ''state_change'') (world s))\<rparr>)"
  by (simp add: post_def update_state_eq)

lemma published_append: "published (t @ u) = published t @ published u"
  by (induction t rule: published.induct) simp_all

lemma collaborator_calls_append: "collaborator_calls (t @ u) = collaborator_calls t @ collaborator_calls u"
  by (induction t rule: collaborator_calls.induct) simp_all

lemma listener_calls_append: "listener_calls (t @ u) = listener_calls t @ listener_calls u"
  by (induction t rule: listener_calls.induct) simp_all

lemma published_callbacks_run: "published (snd (callbacks_run env data ls w)) = []"
  by (induction ls arbitrary: w) (simp_all add: split_beta published_append split: reply.splits)

lemma collaborator_calls_callbacks_run: "collaborator_calls (snd (callbacks_run env data ls w)) = []"
  by (induction ls arbitrary: w) (simp_all add: split_beta collaborator_calls_append split: reply.splits)

lemma listener_calls_callbacks_run:
  "listener_calls (snd (callbacks_run env data ls w)) = map (\<lambda>l. (l, data)) ls"
  by (induction ls arbitrary: w) (simp_all add: split_beta listener_calls_append split: reply.splits)

section \<open>The operations, statement by statement\<close>

lemmas post_simps = post_ret post_raise post_andThen post_try_except post_assign post_logging
  post_invoke post_perform post_trigger_callbacks post_update_state post_reading

lemma post_eq: "post m s Q = Q (fst (m s)) (snd (m s))"
  by (simp add: post_def split_beta)

lemma post_power_on:
  "post (power_on env) s Q =
     (if state s \<noteq> OFF then post (andThen (logging LogWarning) (\<lambda>_. ret False)) s Q
      else
        post (try_except
          (andThen
             (seqs [logging LogInfo,
                    update_state env STANDBY,
                    perform env Jet_initialize,
                    perform env Opt_warm_up,
                    execute_warmup_sequence env,
                    update_state env READY,
                    logging LogInfo])
             (\<lambda>_. ret True))
          (\<lambda>e. andThen (seqs [logging LogError, update_state env ERROR]) (\<lambda>_. ret False))) s Q)"
  by (simp add: post_def power_on_def)

lemma post_stop_emission:
  "post (stop_emission env) s Q =
     (if state s = EMITTING
        then post (seqs [logging LogInfo,
                   perform env Opt_stop_real_time_optimization,
                   perform env Mon_stop_power_monitoring,
                   update_state env READY,
                   assign (\<lambda>s. s\<lparr>current_power := Finite 0\<rparr>),
                   logging LogInfo]) s Q
      else post (ret ()) s Q)"
  by (simp add: post_def stop_emission_def)

lemma post_start_emission:
  "post (start_emission env params) s Q =
     (if state s \<noteq> READY then post (andThen (logging LogError) (\<lambda>_. ret False)) s Q
      else
        post (try_except
          (andThen
             (seqs [validate_emission_parameters params,
                    apply_emission_parameters env params,
                    perform env Opt_start_real_time_optimization,
                    update_state env EMITTING,
                    assign (\<lambda>s. s\<lparr>current_power := power_req params\<rparr>),
                    logging LogInfo,
                    perform env Mon_start_power_monitoring])
             (\<lambda>_. ret True))
          (\<lambda>e. andThen (logging LogError) (\<lambda>_. ret False))) s Q)"
  by (simp add: post_def start_emission_def)

lemma post_set_power:
  "post (set_power env pw) s Q =
     (if float_lt pw (Finite 0) \<or> float_gt pw (max_power (config s)) then post (andThen (logging LogError) (\<lambda>_. ret False)) s Q
      else if state s \<noteq> EMITTING then post (andThen (logging LogError) (\<lambda>_. ret False)) s Q
      else
        post (try_except
          (andThen (invoke env (Opt_adjust_power pw))
             (\<lambda>success.
                andThen
                  (if success
                     then seqs [assign (\<lambda>s. s\<lparr>current_power := pw\<rparr>),
                                trigger_callbacks env ''power_update'' (PowerValue pw),
                                logging LogInfo]
                   else ret ())
                  (\<lambda>_. ret success)))
          (\<lambda>e. andThen (logging LogError) (\<lambda>_. ret False))) s Q)"
  by (simp add: post_def set_power_def)

lemma post_validate:
  "post (validate_emission_parameters params) s Q =
     (if float_le (power_req params) (Finite 0) \<or> float_gt (power_req params) (max_power (config s))
        then Q (Inl ValueError_power) s
      else if float_lt (duration params) (Finite 0) then Q (Inl ValueError_duration) s
      else if float_lt (frequency params) (Finite 0) then Q (Inl ValueError_frequency) s
      else if float_le (duty_cycle params) (Finite 0) \<or> float_gt (duty_cycle params) (Finite 1)
        then Q (Inl ValueError_duty_cycle) s
      else Q (Inr ()) s)"
  by (simp add: post_def validate_emission_parameters_def raise_def ret_def)

lemma valid_passes:
  assumes "valid_emission_parameters (config s) params"
  shows "post (validate_emission_parameters params) s Q = Q (Inr ()) s"
proof -
  have "\<not> float_le (power_req params) (Finite 0)"
    "\<not> float_gt (power_req params) (max_power (config s))"
    "\<not> float_lt (duration params) (Finite 0)" "\<not> float_lt (frequency params) (Finite 0)"
    "\<not> float_le (duty_cycle params) (Finite 0)" "\<not> float_gt (duty_cycle params) (Finite 1)"
    using assms
    by (simp_all add: valid_emission_parameters_def float_gt_def float_lt_not_le float_le_not_lt)
  then show ?thesis by (simp add: post_validate)
qed

lemma fails_raises:
  assumes "fails_validation (config s) params"
  shows "\<exists>e. validate_emission_parameters params s = (Inl e, s)"
  using assms
  by (auto simp add: fails_validation_def validate_emission_parameters_def raise_def)

lemmas op_posts = post_power_on post_stop_emission post_start_emission post_set_power
  power_off_def calibrate_def execute_warmup_sequence_def warmup_steps_def apply_emission_parameters_def

lemma power_on_invariant: "power_invariant s \<Longrightarrow> power_invariant (snd (power_on env s))"
proof -
  assume inv: "power_invariant s"
  have "post (power_on env) s (\<lambda>r s'. power_invariant s')"
    using inv
    apply (simp add: op_posts post_simps split: prod.splits reply.splits)
    apply (simp add: power_invariant_def)
    done
  then show ?thesis by (simp add: post_eq)
qed

lemma stop_emission_invariant: "power_invariant s \<Longrightarrow> power_invariant (snd (stop_emission env s))"
proof -
  assume inv: "power_invariant s"
  have "post (stop_emission env) s (\<lambda>r s'. power_invariant s')"
    using inv
    apply (simp add: op_posts post_simps split: prod.splits reply.splits)
    apply (simp add: power_invariant_def)
    done
  then show ?thesis by (simp add: post_eq)
qed

lemma power_off_invariant: "power_invariant s \<Longrightarrow> power_invariant (snd (power_off env s))"
proof -
  assume inv: "power_invariant s"
  have "post (power_off env) s (\<lambda>r s'. power_invariant s')"
    using inv
    apply (simp add: op_posts post_simps split: prod.splits reply.splits)
    apply (auto simp add: power_invariant_def)
    done
  then show ?thesis by (simp add: post_eq)
qed

lemma start_emission_invariant:
  assumes inv: "power_invariant s"
    and num: "power_req params \<noteq> NaN" "max_power (config s) \<noteq> NaN"
  shows "power_invariant (snd (start_emission env params s))"
proof -
  have "post (start_emission env params) s (\<lambda>r s'. power_invariant s')"
    using inv num
    apply (simp add: op_posts post_validate post_simps split: prod.splits reply.splits)
    apply (auto simp add: power_invariant_def float_gt_def
        intro: float_not_le_lt float_not_lt_le)
    done
  then show ?thesis by (simp add: post_eq)
qed

lemma set_power_invariant:
  assumes inv: "power_invariant s" and nz: "pw \<noteq> Finite 0" and num: "pw \<noteq> NaN"
  shows "power_invariant (snd (set_power env pw s))"
proof -
  have range:
    "state s = EMITTING \<Longrightarrow> \<not> float_lt pw (Finite 0) \<Longrightarrow> \<not> float_gt pw (max_power (config s)) \<Longrightarrow>
       float_lt (Finite 0) pw \<and> float_le pw (max_power (config s))"
  proof -
    assume e: "state s = EMITTING" and lo: "\<not> float_lt pw (Finite 0)"
      and hi: "\<not> float_gt pw (max_power (config s))"
    from inv e have "float_le (current_power s) (max_power (config s))"
      by (simp add: power_invariant_def)
    then have m: "max_power (config s) \<noteq> NaN" using float_le_not_NaN by blast
    have "float_le (Finite 0) pw" using lo num by (simp add: float_not_lt_le)
    then have "float_lt (Finite 0) pw" using nz by (auto intro: float_le_neq_lt)
    moreover have "float_le pw (max_power (config s))"
      using hi m num by (simp add: float_gt_def float_not_lt_le)
    ultimately show ?thesis by simp
  qed
  have "post (set_power env pw) s (\<lambda>r s'. power_invariant s')"
    using inv range
    apply (simp add: op_posts post_simps split: prod.splits reply.splits)
    apply (auto simp add: power_invariant_def)
    done
  then show ?thesis by (simp add: post_eq)
qed

lemma calibrate_invariant:
  "power_invariant s \<Longrightarrow> state s \<noteq> EMITTING \<Longrightarrow> power_invariant (snd (calibrate env s))"
proof -
  assume inv: "power_invariant s" and ne: "state s \<noteq> EMITTING"
  have "post (calibrate env) s (\<lambda>r s'. power_invariant s')"
    using inv ne
    apply (simp add: op_posts post_simps split: prod.splits reply.splits)
    apply (auto simp add: power_invariant_def)
    done
  then show ?thesis by (simp add: post_eq)
qed

section \<open>Runs in which the collaborators answer as wished\<close>

lemma succeed_not_raises:
  "collaborators_succeed env \<Longrightarrow> \<not> is_callback c \<Longrightarrow> fst (env c w) \<noteq> Raises"
  unfolding collaborators_succeed_def
  apply (erule_tac x = c in allE, erule_tac x = w in allE)
  apply (cases c) apply auto
  done

lemma succeed_returns_true:
  "collaborators_succeed env \<Longrightarrow>
   c = Jet_calibrate \<or> c = Opt_calibrate \<or> c = Mon_calibrate_sensors \<or> c = Opt_adjust_power pw \<Longrightarrow>
   fst (env c w) = Returns True"
  unfolding collaborators_succeed_def
  apply (erule_tac x = c in allE, erule_tac x = w in allE)
  apply auto
  done

lemma post_perform_ok:
  "fst (env c (world s)) \<noteq> Raises \<Longrightarrow>
   post (perform env c) s Q =
     Q (Inr ()) (s\<lparr>world := snd (env c (world s)),
                   trace := trace s @ [Called c (fst (env c (world s)))]\<rparr>)"
  by (cases "env c (world s)") (simp add: post_perform split: reply.splits)

lemma post_invoke_true:
  "fst (env c (world s)) = Returns True \<Longrightarrow>
   post (invoke env c) s Q =
     Q (Inr True) (s\<lparr>world := snd (env c (world s)), trace := trace s @ [Called c (Returns True)]\<rparr>)"
  by (cases "env c (world s)") (simp add: post_invoke)

lemma post_perform_raises:
  "fst (env c (world s)) = Raises \<Longrightarrow>
   post (perform env c) s Q =
     Q (Inl (Raised c)) (s\<lparr>world := snd (env c (world s)), trace := trace s @ [Called c Raises]\<rparr>)"
  by (cases "env c (world s)") (simp add: post_perform)

lemmas ok_simps = post_ret post_raise post_andThen post_try_except post_assign post_logging
  post_invoke_true post_perform_ok post_trigger_callbacks post_update_state post_reading
  succeed_not_raises succeed_returns_true

lemmas trace_simps = new_effects_def published_append collaborator_calls_append listener_calls_append
  published_callbacks_run collaborator_calls_callbacks_run listener_calls_callbacks_run

lemma start_emission_ok:
  assumes "state s = READY" "valid_emission_parameters (config s) params" "collaborators_succeed env"
  shows "post (start_emission env params) s (\<lambda>r s'.
           r = Inr True \<and> state s' = EMITTING \<and> current_power s' = power_req params \<and>
           config s' = config s \<and> callbacks s' = callbacks s \<and>
           published (new_effects s s') = [(''state_change'', StateChange READY EMITTING)] \<and>
           map fst (collaborator_calls (new_effects s s')) =
             [Jet_configure_emission params, Opt_configure_optimization params,
              Mon_configure_monitoring params, Opt_start_real_time_optimization,
              Mon_start_power_monitoring])"
  using assms
  by (simp add: op_posts ok_simps valid_passes trace_simps)

lemma power_on_ok:
  assumes "state s = OFF" "collaborators_succeed env"
  shows "post (power_on env) s (\<lambda>r s'.
           r = Inr True \<and> state s' = READY \<and> current_power s' = current_power s \<and>
           config s' = config s \<and> callbacks s' = callbacks s)"
  using assms
  by (simp add: op_posts ok_simps trace_simps)

lemma calibrate_ok:
  assumes "collaborators_succeed env"
  shows "post (calibrate env) s (\<lambda>r s'.
           r = Inr True \<and> state s' = READY \<and> current_power s' = current_power s \<and>
           config s' = config s \<and> callbacks s' = callbacks s)"
  using assms
  by (simp add: op_posts ok_simps trace_simps)

lemma stop_emission_ok:
  assumes "collaborators_succeed env" "state s = EMITTING"
  shows "post (stop_emission env) s (\<lambda>r s'.
           r = Inr () \<and> state s' = READY \<and> current_power s' = Finite 0 \<and>
           config s' = config s \<and> callbacks s' = callbacks s)"
  using assms
  by (simp add: op_posts ok_simps trace_simps)

lemma power_off_ok:
  assumes "collaborators_succeed env"
  shows "post (power_off env) s (\<lambda>r s'. r = Inr ())"
  using assms
  by (simp add: op_posts ok_simps trace_simps)

lemma set_power_ok:
  assumes "collaborators_succeed env" "state s = EMITTING"
    "float_le (Finite 0) pw" "float_le pw (max_power (config s))"
  shows "post (set_power env pw) s (\<lambda>r s'.
           r = Inr True \<and> state s' = EMITTING \<and> current_power s' = pw \<and>
           config s' = config s \<and> callbacks s' = callbacks s \<and>
           published (new_effects s s') = [(''power_update'', PowerValue pw)])"
  using assms
  by (simp add: op_posts ok_simps trace_simps float_gt_def float_le_not_lt)

lemma power_off_result:
  "post (power_off env) s (\<lambda>r s'.
     (r = Inr () \<longrightarrow> state s' = OFF \<and> current_power s' = Finite 0 \<and>
        map fst (collaborator_calls (new_effects s s')) =
          (if state s = EMITTING then [Opt_stop_real_time_optimization, Mon_stop_power_monitoring] else [])
          @ [Opt_shutdown, Jet_shutdown]) \<and>
     r = (case last (collaborator_calls (new_effects s s')) of
            (c, Raises) \<Rightarrow> Inl (Raised c) | (c, Returns b) \<Rightarrow> Inr ()) \<and>
     state s' =
       (if r = Inr () then OFF
        else if state s = EMITTING \<and> r \<in> {Inl (Raised Opt_shutdown), Inl (Raised Jet_shutdown)}
          then READY
        else state s) \<and>
     collaborator_calls (new_effects s s') \<noteq> [] \<and>
     list_all (\<lambda>cr. snd cr \<noteq> Raises) (butlast (collaborator_calls (new_effects s s'))) \<and>
     map fst (collaborator_calls (new_effects s s')) =
       take (length (collaborator_calls (new_effects s s')))
         ((if state s = EMITTING then [Opt_stop_real_time_optimization, Mon_stop_power_monitoring]
           else []) @ [Opt_shutdown, Jet_shutdown]))"
  by (simp add: op_posts post_simps trace_simps split: prod.splits reply.splits)

section \<open>The concrete controllers\<close>

lemma stub_succeed: "collaborators_succeed stub_subsystems"
  unfolding collaborators_succeed_def stub_subsystems_def
proof (intro allI)
  fix c :: call and w :: unit
  show "reports_success c (fst (stub_reply c, w))" by (cases c) simp_all
qed

lemma init_fields:
  "state (init cfg w) = OFF" "current_power (init cfg w) = Finite 0" "config (init cfg w) = cfg"
  by (simp_all add: init_def)

lemma ready_controller_fields:
  "state ready_controller = READY" "current_power ready_controller = Finite 0"
  "config ready_controller = default_config"
  "callbacks ready_controller = callbacks (init default_config ())"
  using power_on_ok [of "init default_config ()" stub_subsystems]
  by (simp_all add: post_eq ready_controller_def stub_succeed init_fields)

lemma demo_params_valid: "valid_emission_parameters default_config demo_params"
  by (simp add: valid_emission_parameters_def default_config_def demo_params_def float_le_Finite)

lemma demo_start_emission:
  "post (start_emission stub_subsystems demo_params) ready_controller (\<lambda>r s'.
           r = Inr True \<and> state s' = EMITTING \<and> current_power s' = power_req demo_params \<and>
           config s' = config ready_controller \<and> callbacks s' = callbacks ready_controller \<and>
           published (new_effects ready_controller s') = [(''state_change'', StateChange READY EMITTING)] \<and>
           map fst (collaborator_calls (new_effects ready_controller s')) =
             [Jet_configure_emission demo_params, Opt_configure_optimization demo_params,
              Mon_configure_monitoring demo_params, Opt_start_real_time_optimization,
              Mon_start_power_monitoring])"
proof (rule start_emission_ok)
  show "state ready_controller = READY" by (simp add: ready_controller_fields)
  show "valid_emission_parameters (config ready_controller) demo_params"
    by (simp add: ready_controller_fields demo_params_valid)
  show "collaborators_succeed stub_subsystems" by (rule stub_succeed)
qed

lemma emitting_controller_fields:
  "fst (start_emission stub_subsystems demo_params ready_controller) = Inr True"
  "state emitting_controller = EMITTING"
  "current_power emitting_controller = Finite (25 / 10 ^ 10)"
  "config emitting_controller = default_config"
  "callbacks emitting_controller = callbacks (init default_config ())"
  "published (new_effects ready_controller emitting_controller) =
     [(''state_change'', StateChange READY EMITTING)]"
  using demo_start_emission
  by (simp_all add: post_eq emitting_controller_def ready_controller_fields demo_params_def)



section \<open>The polling loop of the demo\<close>

lemma post_mono:
  assumes "post m s Q" "\<And>r s'. Q r s' \<Longrightarrow> Q' r s'"
  shows "post m s Q'"
  using assms by (simp add: post_def split_beta)

lemma poll_status_keeps_emitting:
  assumes "collaborators_succeed env" "state s = EMITTING"
  shows "post (poll_status env n) s (\<lambda>r s'.
           r = Inr () \<and> state s' = EMITTING \<and> current_power s' = current_power s \<and>
           (\<exists>t. trace s' = trace s @ t \<and>
                map fst (collaborator_calls t) =
                  concat (replicate n
                    [Mon_get_current_metrics, Jet_get_status, Opt_get_status, Mon_get_status,
                     Sleep 1])))"
  using assms(2)
proof (induction n arbitrary: s)
  case 0
  then show ?case by (simp add: post_ret)
next
  case (Suc n)
  show ?case
    using assms(1) Suc.prems
    apply (simp add: get_status_def ok_simps)
    apply (rule post_mono)
     apply (rule Suc.IH)
     apply simp
    apply (auto simp add: collaborator_calls_append)
    done
qed

lemma quick_demo_emitting_fields:
  "state quick_demo_emitting = EMITTING"
  "current_power quick_demo_emitting = Finite (25 / 10 ^ 10)"
proof -
  let ?s0 = "register_callback ''power_update'' 2
               (register_callback ''state_change'' 1 (init default_config ()))"
  let ?s1 = "snd (power_on stub_subsystems ?s0)"
  let ?s2 = "snd (calibrate stub_subsystems ?s1)"
  have s0: "state ?s0 = OFF" "config ?s0 = default_config"
    by (simp_all add: register_callback_def init_def)
  have s1: "state ?s1 = READY" "config ?s1 = default_config"
    using power_on_ok [OF s0(1) stub_succeed] s0 by (simp_all add: post_eq)
  have s2: "state ?s2 = READY" "config ?s2 = default_config"
    using calibrate_ok [OF stub_succeed, of ?s1] s1 by (simp_all add: post_eq)
  have "valid_emission_parameters default_config quick_demo_params"
    by (simp add: valid_emission_parameters_def default_config_def quick_demo_params_def
        float_le_Finite)
  then have v: "valid_emission_parameters (config ?s2) quick_demo_params"
    by (simp only: s2(2))
  show "state quick_demo_emitting = EMITTING"
    "current_power quick_demo_emitting = Finite (25 / 10 ^ 10)"
    using start_emission_ok [OF s2(1) v stub_succeed]
    by (simp_all add: post_eq quick_demo_emitting_def quick_demo_params_def)
qed

section \<open>The claims\<close>

subsection \<open>C1: the power invariant\<close>

text \<open>
  C1 (as amended). The power invariant (\<open>current_power = 0\<close> outside \<open>EMITTING\<close>,
  \<open>0 < current_power \<le> max_power\<close> in \<open>EMITTING\<close>) holds of a freshly constructed controller
  and is preserved, whatever the collaborators answer, by \<open>power_on\<close>, \<open>power_off\<close> and
  \<open>stop_emission\<close> from every state, by \<open>start_emission\<close> when neither the requested power
  nor \<open>max_power\<close> is NaN, by \<open>set_power\<close> for every requested power other than 0 and NaN,
  and by \<open>calibrate\<close> when it is called in a state other than \<open>EMITTING\<close>. In every state
  \<open>calibrate\<close> leaves \<open>current_power\<close> as it was and ends in \<open>READY\<close> or \<open>ERROR\<close>: called
  while emitting, it ends outside \<open>EMITTING\<close> with the emission power still set.
\<close>

theorem power_invariant_preserved:
  assumes "power_invariant s"
  shows "power_invariant (init cfg w) \<and>
         power_invariant (snd (power_on env s)) \<and>
         power_invariant (snd (power_off env s)) \<and>
         power_invariant (snd (stop_emission env s)) \<and>
         (power_req params \<noteq> NaN \<and> max_power (config s) \<noteq> NaN \<longrightarrow>
            power_invariant (snd (start_emission env params s))) \<and>
         (pw \<noteq> Finite 0 \<and> pw \<noteq> NaN \<longrightarrow> power_invariant (snd (set_power env pw s))) \<and>
         (state s \<noteq> EMITTING \<longrightarrow> power_invariant (snd (calibrate env s))) \<and>
         current_power (snd (calibrate env s)) = current_power s \<and>
         state (snd (calibrate env s)) \<in> {READY, ERROR}"
proof -
  have "post (calibrate env) s (\<lambda>r s'.
          current_power s' = current_power s \<and> state s' \<in> {READY, ERROR})"
    by (simp add: op_posts post_simps split: prod.splits reply.splits)
  then have "current_power (snd (calibrate env s)) = current_power s \<and>
      state (snd (calibrate env s)) \<in> {READY, ERROR}"
    by (simp add: post_eq)
  moreover have "power_invariant (init cfg w)"
    by (simp add: power_invariant_def init_fields)
  ultimately show ?thesis
    using assms
    by (simp add: power_on_invariant power_off_invariant start_emission_invariant
        stop_emission_invariant set_power_invariant calibrate_invariant)
qed

text \<open>
  C1, witness. Each operation on a path where it acts: \<open>power_on\<close> from the fresh
  controller; \<open>start_emission\<close> and \<open>calibrate\<close> from the ready one; \<open>set_power\<close> to 1 nW,
  \<open>stop_emission\<close> and \<open>power_off\<close> from the emitting one.
\<close>

theorem power_invariant_preserved_witness:
  "power_invariant (init default_config ()) \<and>
   fst (power_on stub_subsystems (init default_config ())) = Inr True \<and>
   power_invariant (snd (power_on stub_subsystems (init default_config ()))) \<and>
   power_invariant ready_controller \<and> state ready_controller \<noteq> EMITTING \<and>
   power_req demo_params \<noteq> NaN \<and> max_power (config ready_controller) \<noteq> NaN \<and>
   fst (start_emission stub_subsystems demo_params ready_controller) = Inr True \<and>
   power_invariant (snd (start_emission stub_subsystems demo_params ready_controller)) \<and>
   fst (calibrate stub_subsystems ready_controller) = Inr True \<and>
   power_invariant (snd (calibrate stub_subsystems ready_controller)) \<and>
   power_invariant emitting_controller \<and> Finite (1 / 10 ^ 9) \<noteq> Finite 0 \<and> Finite (1 / 10 ^ 9) \<noteq> NaN \<and>
   fst (set_power stub_subsystems (Finite (1 / 10 ^ 9)) emitting_controller) = Inr True \<and>
   current_power (snd (set_power stub_subsystems (Finite (1 / 10 ^ 9)) emitting_controller)) =
     Finite (1 / 10 ^ 9) \<and>
   power_invariant (snd (set_power stub_subsystems (Finite (1 / 10 ^ 9)) emitting_controller)) \<and>
   state (snd (stop_emission stub_subsystems emitting_controller)) = READY \<and>
   power_invariant (snd (stop_emission stub_subsystems emitting_controller)) \<and>
   state (snd (power_off stub_subsystems emitting_controller)) = OFF \<and>
   power_invariant (snd (power_off stub_subsystems emitting_controller))"
proof -
  have i0: "power_invariant (init default_config ())"
    by (simp add: power_invariant_def init_fields)
  have i1: "power_invariant ready_controller"
    by (simp add: power_invariant_def ready_controller_fields)
  have i2: "power_invariant emitting_controller"
    by (simp add: power_invariant_def emitting_controller_fields default_config_def float_le_Finite)
  have on: "fst (power_on stub_subsystems (init default_config ())) = Inr True"
    using power_on_ok [of "init default_config ()" stub_subsystems]
    by (simp add: post_eq stub_succeed init_fields)
  have cal: "fst (calibrate stub_subsystems ready_controller) = Inr True"
    using calibrate_ok [OF stub_succeed, of ready_controller] by (simp add: post_eq)
  have sp: "fst (set_power stub_subsystems (Finite (1 / 10 ^ 9)) emitting_controller) = Inr True"
    "current_power (snd (set_power stub_subsystems (Finite (1 / 10 ^ 9)) emitting_controller)) =
       Finite (1 / 10 ^ 9)"
    using set_power_ok [of stub_subsystems emitting_controller "Finite (1 / 10 ^ 9)"]
    by (simp_all add: post_eq stub_succeed emitting_controller_fields default_config_def
        float_le_Finite)
  have st: "state (snd (stop_emission stub_subsystems emitting_controller)) = READY"
    using stop_emission_ok [OF stub_succeed, of emitting_controller]
    by (simp add: post_eq emitting_controller_fields)
  have off: "state (snd (power_off stub_subsystems emitting_controller)) = OFF"
    using power_off_ok [OF stub_succeed, of emitting_controller]
      power_off_result [of stub_subsystems emitting_controller]
    by (simp add: post_eq)
  have n: "power_req demo_params \<noteq> NaN" "max_power (config ready_controller) \<noteq> NaN"
    "state ready_controller \<noteq> EMITTING"
    by (simp_all add: demo_params_def ready_controller_fields default_config_def)
  have se: "fst (start_emission stub_subsystems demo_params ready_controller) = Inr True"
    by (rule emitting_controller_fields(1))
  show ?thesis
    using i0 i1 i2 on cal sp st off n se
      power_invariant_preserved [OF i0, of default_config "()" stub_subsystems demo_params NaN]
      power_invariant_preserved
        [OF i1, of default_config "()" stub_subsystems demo_params "Finite (1 / 10 ^ 9)"]
      power_invariant_preserved
        [OF i2, of default_config "()" stub_subsystems demo_params "Finite (1 / 10 ^ 9)"]
    by simp
qed

text \<open>
  C1, counterexample to the claim as stated: \<open>calibrate\<close> has no precondition on the state
  and never touches \<open>current_power\<close>. Called while emitting 2.5 nW (a state reached by
  \<open>power_on\<close> and \<open>start_emission\<close>), it ends in \<open>READY\<close> with \<open>current_power\<close> still 2.5 nW.
\<close>

theorem calibrate_keeps_power_counterexample:
  "power_invariant emitting_controller \<and>
   state (snd (calibrate stub_subsystems emitting_controller)) = READY \<and>
   current_power (snd (calibrate stub_subsystems emitting_controller)) = Finite (25 / 10 ^ 10) \<and>
   \<not> power_invariant (snd (calibrate stub_subsystems emitting_controller))"
  using calibrate_ok [of stub_subsystems emitting_controller]
  by (simp add: post_eq stub_succeed power_invariant_def emitting_controller_fields default_config_def
      float_le_Finite)

subsection \<open>C2: \<open>set_power\<close>\<close>

text \<open>
  C2. The claim has \<open>set_power\<close> reject every power outside \<open>(0, max_power]\<close>, 0 included.
  The range test of \<^verbatim>\<open>set_power\<close> is \<^verbatim>\<open>power < 0 or power > max_power\<close>, where
  \<^verbatim>\<open>_validate_emission_parameters\<close> tests \<^verbatim>\<open>power <= 0\<close>: while emitting, \<open>set_power 0\<close> is
  accepted, returns true, sets \<open>current_power\<close> to 0 with the state still \<open>EMITTING\<close>, and
  publishes the power update 0.
\<close>

theorem set_power_accepts_zero:
  "fst (set_power stub_subsystems (Finite 0) emitting_controller) = Inr True \<and>
   state (snd (set_power stub_subsystems (Finite 0) emitting_controller)) = EMITTING \<and>
   current_power (snd (set_power stub_subsystems (Finite 0) emitting_controller)) = Finite 0 \<and>
   published (new_effects emitting_controller
      (snd (set_power stub_subsystems (Finite 0) emitting_controller)))
     = [(''power_update'', PowerValue (Finite 0))]"
proof -
  have "post (set_power stub_subsystems (Finite 0)) emitting_controller (\<lambda>r s'.
          r = Inr True \<and> state s' = EMITTING \<and> current_power s' = Finite 0 \<and>
          published (new_effects emitting_controller s') = [(''power_update'', PowerValue (Finite 0))])"
    using stub_succeed
    by (simp add: op_posts ok_simps trace_simps emitting_controller_fields default_config_def
        float_gt_def)
  then show ?thesis by (simp add: post_eq)
qed

subsection \<open>C3: a successful \<open>start_emission\<close>\<close>

text \<open>
  C3 (as amended). From \<open>READY\<close>, with valid parameters and collaborators that all succeed,
  \<open>start_emission\<close> returns true, ends in \<open>EMITTING\<close> with \<open>current_power\<close> equal to the
  requested power, and publishes exactly one event: the state change from \<open>READY\<close> to
  \<open>EMITTING\<close>. No power update is published.
\<close>

theorem start_emission_success:
  assumes "state s = READY" "valid_emission_parameters (config s) params" "collaborators_succeed env"
  shows "fst (start_emission env params s) = Inr True \<and>
         state (snd (start_emission env params s)) = EMITTING \<and>
         current_power (snd (start_emission env params s)) = power_req params \<and>
         published (new_effects s (snd (start_emission env params s))) =
           [(''state_change'', StateChange READY EMITTING)]"
  using start_emission_ok [OF assms] by (simp add: post_eq)

text \<open>C3, witness: the controller after \<open>power_on\<close>, the parameters of the demo, the stub subsystems.\<close>

theorem start_emission_success_witness:
  "state ready_controller = READY \<and>
   valid_emission_parameters (config ready_controller) demo_params \<and>
   collaborators_succeed stub_subsystems \<and>
   fst (start_emission stub_subsystems demo_params ready_controller) = Inr True \<and>
   state (snd (start_emission stub_subsystems demo_params ready_controller)) = EMITTING \<and>
   current_power (snd (start_emission stub_subsystems demo_params ready_controller)) =
     Finite (25 / 10 ^ 10) \<and>
   published (new_effects ready_controller
      (snd (start_emission stub_subsystems demo_params ready_controller))) =
     [(''state_change'', StateChange READY EMITTING)]"
proof -
  have h: "state ready_controller = READY"
    "valid_emission_parameters (config ready_controller) demo_params"
    "collaborators_succeed stub_subsystems"
    by (simp_all add: ready_controller_fields demo_params_valid stub_succeed)
  show ?thesis
    using h start_emission_success [OF h] by (simp add: demo_params_def)
qed

text \<open>
  C3, counterexample to the claim as stated: on the same input the call succeeds and the
  published events hold no power update. Only \<open>set_power\<close> publishes one.
\<close>

theorem start_emission_no_power_update_counterexample:
  "fst (start_emission stub_subsystems demo_params ready_controller) = Inr True \<and>
   published (new_effects ready_controller
      (snd (start_emission stub_subsystems demo_params ready_controller))) =
     [(''state_change'', StateChange READY EMITTING)] \<and>
   (''power_update'', PowerValue (power_req demo_params)) \<notin>
     set (published (new_effects ready_controller
      (snd (start_emission stub_subsystems demo_params ready_controller))))"
  using emitting_controller_fields by (simp add: emitting_controller_def)

subsection \<open>C4: emission with a duration\<close>

text \<open>
  C4. The claim has the controller stop a bounded emission by itself. \<^verbatim>\<open>start_emission\<close>
  reads \<^verbatim>\<open>params.duration\<close> to validate it and to format a log line, and starts nothing
  that would run later. In \<^verbatim>\<open>examples/quick_demo.py\<close>, whose parameters carry the comment
  that the emission of 3 seconds stops by itself, the loop that waits for the state to
  leave \<open>EMITTING\<close> never sees it happen: it reads the status and sleeps one second five
  times over, and the controller is then still \<open>EMITTING\<close> at 2.5 nW.
\<close>

theorem quick_demo_emission_never_stops:
  "duration quick_demo_params = Finite 3 \<and>
   state quick_demo_emitting = EMITTING \<and>
   fst (poll_status stub_subsystems 5 quick_demo_emitting) = Inr () \<and>
   map fst (collaborator_calls (new_effects quick_demo_emitting
        (snd (poll_status stub_subsystems 5 quick_demo_emitting)))) =
     concat (replicate 5
       [Mon_get_current_metrics, Jet_get_status, Opt_get_status, Mon_get_status, Sleep 1]) \<and>
   state (snd (poll_status stub_subsystems 5 quick_demo_emitting)) = EMITTING \<and>
   current_power (snd (poll_status stub_subsystems 5 quick_demo_emitting)) = Finite (25 / 10 ^ 10)"
  using poll_status_keeps_emitting [OF stub_succeed quick_demo_emitting_fields(1), of 5]
  by (auto simp add: post_eq quick_demo_emitting_fields quick_demo_params_def new_effects_def)

subsection \<open>C5: invalid parameters\<close>

text \<open>
  C5. From \<open>READY\<close>, when the parameters fail validation (power \<open>\<le> 0\<close> or \<open>> max_power\<close>,
  or duration \<open>< 0\<close>, or frequency \<open>< 0\<close>, or duty cycle \<open>\<le> 0\<close> or \<open>> 1\<close>),
  \<open>start_emission\<close> returns false and does nothing but log the error: no collaborator
  and no listener is called, no event is published, and every field of the controller,
  \<open>state\<close> and \<open>current_power\<close> among them, is as before.
\<close>

theorem start_emission_invalid_rejected:
  assumes "state s = READY" "fails_validation (config s) params"
  shows "start_emission env params s = (Inr False, s\<lparr>trace := trace s @ [Logged LogError]\<rparr>) \<and>
         state (snd (start_emission env params s)) = state s \<and>
         current_power (snd (start_emission env params s)) = current_power s \<and>
         collaborator_calls (new_effects s (snd (start_emission env params s))) = [] \<and>
         listener_calls (new_effects s (snd (start_emission env params s))) = [] \<and>
         published (new_effects s (snd (start_emission env params s))) = []"
proof -
  from fails_raises [OF assms(2)]
  obtain e where v: "validate_emission_parameters params s = (Inl e, s)" by blast
  have pv: "\<And>Q. post (validate_emission_parameters params) s Q = Q (Inl e) s"
    by (simp add: post_def v)
  have "post (start_emission env params) s (\<lambda>r s'. (r, s') = (Inr False, s\<lparr>trace := trace s @ [Logged LogError]\<rparr>))"
    using assms(1)
    by (simp add: op_posts post_simps pv)
  then have "start_emission env params s = (Inr False, s\<lparr>trace := trace s @ [Logged LogError]\<rparr>)"
    by (simp add: post_eq prod_eq_iff)
  then show ?thesis by (simp add: new_effects_def)
qed

text \<open>C5, witness: 6 nW requested with \<open>max_power\<close> 5 nW.\<close>

theorem start_emission_invalid_rejected_witness:
  "state ready_controller = READY \<and>
   fails_validation (config ready_controller) excessive_params \<and>
   fst (start_emission stub_subsystems excessive_params ready_controller) = Inr False \<and>
   state (snd (start_emission stub_subsystems excessive_params ready_controller)) = READY \<and>
   current_power (snd (start_emission stub_subsystems excessive_params ready_controller)) = Finite 0 \<and>
   collaborator_calls (new_effects ready_controller
     (snd (start_emission stub_subsystems excessive_params ready_controller))) = [] \<and>
   published (new_effects ready_controller
     (snd (start_emission stub_subsystems excessive_params ready_controller))) = []"
proof -
  have h: "state ready_controller = READY"
    "fails_validation (config ready_controller) excessive_params"
    by (simp_all add: ready_controller_fields fails_validation_def excessive_params_def
        default_config_def float_gt_def)
  show ?thesis
    using h start_emission_invalid_rejected [OF h, of stub_subsystems]
    by (simp add: ready_controller_fields new_effects_def)
qed

subsection \<open>C6: \<open>power_off\<close>\<close>

text \<open>
  C6 (as amended). \<open>power_off\<close> has no exception handler. When the collaborators succeed
  it returns normally; when it returns normally, it has stopped the emission if one was
  active, shut down the optimizer and then the jet, and left the state \<open>OFF\<close> and
  \<open>current_power\<close> 0. In every case the collaborator calls it makes are an initial part
  of that sequence, every call but the last has returned, and its outcome is that of the
  last call: the first call that raises ends the sequence and its exception is the
  outcome of \<open>power_off\<close>. The state is then the one before that call (\<open>READY\<close> when the
  emission had been stopped), never set to \<open>OFF\<close> by \<open>power_off\<close>.
\<close>

theorem power_off_outcome:
  "(collaborators_succeed env \<longrightarrow> fst (power_off env s) = Inr ()) \<and>
   (fst (power_off env s) = Inr () \<longrightarrow>
      state (snd (power_off env s)) = OFF \<and> current_power (snd (power_off env s)) = Finite 0 \<and>
      map fst (collaborator_calls (new_effects s (snd (power_off env s)))) =
        (if state s = EMITTING then [Opt_stop_real_time_optimization, Mon_stop_power_monitoring] else [])
        @ [Opt_shutdown, Jet_shutdown]) \<and>
   fst (power_off env s) =
     (case last (collaborator_calls (new_effects s (snd (power_off env s)))) of
        (c, Raises) \<Rightarrow> Inl (Raised c) | (c, Returns b) \<Rightarrow> Inr ()) \<and>
   state (snd (power_off env s)) =
     (if fst (power_off env s) = Inr () then OFF
      else if state s = EMITTING \<and>
              fst (power_off env s) \<in> {Inl (Raised Opt_shutdown), Inl (Raised Jet_shutdown)}
        then READY
      else state s) \<and>
   collaborator_calls (new_effects s (snd (power_off env s))) \<noteq> [] \<and>
   list_all (\<lambda>cr. snd cr \<noteq> Raises)
     (butlast (collaborator_calls (new_effects s (snd (power_off env s))))) \<and>
   map fst (collaborator_calls (new_effects s (snd (power_off env s)))) =
     take (length (collaborator_calls (new_effects s (snd (power_off env s)))))
       ((if state s = EMITTING then [Opt_stop_real_time_optimization, Mon_stop_power_monitoring]
         else []) @ [Opt_shutdown, Jet_shutdown])"
proof -
  have ok: "collaborators_succeed env \<longrightarrow> fst (power_off env s) = Inr ()"
    using power_off_ok [of env s] by (simp add: post_eq)
  show ?thesis
    using ok power_off_result [of env s] unfolding post_eq by (rule conjI)
qed

text \<open>C6, witness: \<open>power_off\<close> while emitting, with the stub subsystems.\<close>

theorem power_off_outcome_witness:
  "collaborators_succeed stub_subsystems \<and>
   fst (power_off stub_subsystems emitting_controller) = Inr () \<and>
   state (snd (power_off stub_subsystems emitting_controller)) = OFF \<and>
   current_power (snd (power_off stub_subsystems emitting_controller)) = Finite 0 \<and>
   map fst (collaborator_calls (new_effects emitting_controller
       (snd (power_off stub_subsystems emitting_controller)))) =
     [Opt_stop_real_time_optimization, Mon_stop_power_monitoring, Opt_shutdown, Jet_shutdown]"
proof -
  note t = power_off_outcome [of stub_subsystems emitting_controller]
  have ok: "fst (power_off stub_subsystems emitting_controller) = Inr ()"
    using t stub_succeed by blast
  have r: "state (snd (power_off stub_subsystems emitting_controller)) = OFF \<and>
      current_power (snd (power_off stub_subsystems emitting_controller)) = Finite 0 \<and>
      map fst (collaborator_calls (new_effects emitting_controller
          (snd (power_off stub_subsystems emitting_controller)))) =
        (if state emitting_controller = EMITTING
           then [Opt_stop_real_time_optimization, Mon_stop_power_monitoring] else [])
        @ [Opt_shutdown, Jet_shutdown]"
    using t ok by blast
  show ?thesis
    using stub_succeed ok r by (simp add: emitting_controller_fields)
qed

text \<open>
  C6, counterexample to the claim as stated: when the optimizer's \<open>shutdown\<close> raises,
  \<open>power_off\<close> called while emitting passes the exception on to its caller, logs no
  error, and leaves the state \<open>READY\<close>, not \<open>OFF\<close>.
\<close>

theorem power_off_raises_counterexample:
  "fst (power_off (stub_except Opt_shutdown Raises) emitting_controller) = Inl (Raised Opt_shutdown) \<and>
   state (snd (power_off (stub_except Opt_shutdown Raises) emitting_controller)) = READY \<and>
   Logged LogError \<notin> set (new_effects emitting_controller
      (snd (power_off (stub_except Opt_shutdown Raises) emitting_controller)))"
proof -
  have "post (power_off (stub_except Opt_shutdown Raises)) emitting_controller (\<lambda>r s'.
          r = Inl (Raised Opt_shutdown) \<and> state s' = READY \<and>
          Logged LogError \<notin> set (new_effects emitting_controller s'))"
    by (simp add: op_posts post_simps trace_simps emitting_controller_fields stub_except_def
        stub_subsystems_def registered_def init_def)
  then show ?thesis by (simp add: post_eq)
qed

subsection \<open>C7: \<open>calibrate\<close>\<close>



subsection \<open>C8: the round trip\<close>

text \<open>
  C8. From \<open>OFF\<close>, with collaborators that all succeed and valid parameters, the sequence
  \<open>power_on\<close>, \<open>calibrate\<close>, \<open>start_emission\<close>, \<open>stop_emission\<close>, \<open>power_off\<close> succeeds at
  every step and ends in \<open>OFF\<close> with \<open>current_power\<close> 0.
\<close>

theorem round_trip_ends_off:
  assumes "state s = OFF" "collaborators_succeed env" "valid_emission_parameters (config s) params"
  shows "fst (power_on env s) = Inr True \<and>
   fst (calibrate env (snd (power_on env s))) = Inr True \<and>
   fst (start_emission env params (snd (calibrate env (snd (power_on env s))))) = Inr True \<and>
   fst (stop_emission env (snd (start_emission env params (snd (calibrate env (snd (power_on env s))))))) = Inr () \<and>
   fst (power_off env (snd (stop_emission env (snd (start_emission env params
          (snd (calibrate env (snd (power_on env s))))))))) = Inr () \<and>
   state (snd (power_off env (snd (stop_emission env (snd (start_emission env params
          (snd (calibrate env (snd (power_on env s)))))))))) = OFF \<and>
   current_power (snd (power_off env (snd (stop_emission env (snd (start_emission env params
          (snd (calibrate env (snd (power_on env s)))))))))) = Finite 0"
proof -
  let ?s1 = "snd (power_on env s)"
  let ?s2 = "snd (calibrate env ?s1)"
  let ?s3 = "snd (start_emission env params ?s2)"
  let ?s4 = "snd (stop_emission env ?s3)"
  have p1: "fst (power_on env s) = Inr True" "state ?s1 = READY" "config ?s1 = config s"
    using power_on_ok [OF assms(1,2)] by (simp_all add: post_eq)
  have p2: "fst (calibrate env ?s1) = Inr True" "state ?s2 = READY" "config ?s2 = config s"
    using calibrate_ok [OF assms(2), of ?s1] p1 by (simp_all add: post_eq)
  have v: "valid_emission_parameters (config ?s2) params"
    using assms(3) p2 by simp
  have p3: "fst (start_emission env params ?s2) = Inr True" "state ?s3 = EMITTING"
    using start_emission_ok [OF p2(2) v assms(2)] by (simp_all add: post_eq)
  have p4: "fst (stop_emission env ?s3) = Inr ()"
    using stop_emission_ok [OF assms(2) p3(2)] by (simp add: post_eq)
  have p5: "fst (power_off env ?s4) = Inr ()"
    using power_off_ok [OF assms(2), of ?s4] by (simp add: post_eq)
  have p6: "state (snd (power_off env ?s4)) = OFF"
    "current_power (snd (power_off env ?s4)) = Finite 0"
    using power_off_result [of env ?s4] p5 by (simp_all add: post_eq)
  show ?thesis using p1 p2 p3 p4 p5 p6 by simp
qed

text \<open>C8, witness: the run of \<^verbatim>\<open>examples/basic_demo.py\<close> on a fresh controller.\<close>

theorem round_trip_ends_off_witness:
  "state (init default_config ()) = OFF \<and> collaborators_succeed stub_subsystems \<and>
   valid_emission_parameters (config (init default_config ())) demo_params \<and>
   state (snd (power_off stub_subsystems (snd (stop_emission stub_subsystems
     (snd (start_emission stub_subsystems demo_params
       (snd (calibrate stub_subsystems (snd (power_on stub_subsystems (init default_config ()))))))))))) = OFF \<and>
   current_power (snd (power_off stub_subsystems (snd (stop_emission stub_subsystems
     (snd (start_emission stub_subsystems demo_params
       (snd (calibrate stub_subsystems (snd (power_on stub_subsystems (init default_config ()))))))))))) = Finite 0"
proof -
  have h: "state (init default_config ()) = OFF" "collaborators_succeed stub_subsystems"
    "valid_emission_parameters (config (init default_config ())) demo_params"
    by (simp_all add: init_fields stub_succeed demo_params_valid)
  show ?thesis
    using h round_trip_ends_off [OF h] by simp
qed

subsection \<open>C9: the callback bus\<close>

text \<open>
  C9. Publishing an event never raises, and it calls the listeners registered for the
  event, all of them, once each, in the order of registration, whatever any of them
  answers (a return or an exception); \<open>register_callback\<close> appends to the end of the list
  of a known event.
\<close>

theorem listeners_all_invoked_in_order:
  "fst (trigger_callbacks env event data s) = Inr () \<and>
   listener_calls (new_effects s (snd (trigger_callbacks env event data s))) =
     map (\<lambda>l. (l, data)) (registered s event) \<and>
   registered (register_callback event l s) event =
     (if event \<in> dom (callbacks s) then registered s event @ [l] else [])"
  by (auto simp add: trigger_callbacks_eq trace_simps registered_def register_callback_def
      split: option.splits)

text \<open>C9, an instance: listener 1 raises and listener 2 is called after it.\<close>

theorem listeners_all_invoked_in_order_witness:
  "registered two_listeners ''state_change'' = [1, 2] \<and>
   fst (stub_except (Callback 1 (StateChange OFF STANDBY)) Raises (Callback 1 (StateChange OFF STANDBY)) ()) = Raises \<and>
   fst (trigger_callbacks (stub_except (Callback 1 (StateChange OFF STANDBY)) Raises)
          ''state_change'' (StateChange OFF STANDBY) two_listeners) = Inr () \<and>
   listener_calls (new_effects two_listeners
      (snd (trigger_callbacks (stub_except (Callback 1 (StateChange OFF STANDBY)) Raises)
          ''state_change'' (StateChange OFF STANDBY) two_listeners))) =
     [(1, StateChange OFF STANDBY), (2, StateChange OFF STANDBY)]"
proof -
  have r: "registered two_listeners ''state_change'' = [1, 2]"
    by (simp add: two_listeners_def registered_def register_callback_def init_def)
  show ?thesis
    using r listeners_all_invoked_in_order
      [of "stub_except (Callback 1 (StateChange OFF STANDBY)) Raises" "''state_change''"
          "StateChange OFF STANDBY" two_listeners]
    by (simp add: stub_except_def)
qed

subsection \<open>C10: a false return after the state was committed\<close>

text \<open>
  C10. From \<open>READY\<close> with valid parameters, when the configuration calls and the start of
  the optimization do not raise and the monitor's \<open>start_power_monitoring\<close> raises,
  \<open>start_emission\<close> returns false although the controller has changed: the state is
  \<open>EMITTING\<close> and \<open>current_power\<close> is the requested power.
\<close>

theorem start_emission_false_after_commit:
  assumes "state s = READY" "valid_emission_parameters (config s) params"
    "\<forall>w. fst (env (Jet_configure_emission params) w) \<noteq> Raises"
    "\<forall>w. fst (env (Opt_configure_optimization params) w) \<noteq> Raises"
    "\<forall>w. fst (env (Mon_configure_monitoring params) w) \<noteq> Raises"
    "\<forall>w. fst (env Opt_start_real_time_optimization w) \<noteq> Raises"
    "\<forall>w. fst (env Mon_start_power_monitoring w) = Raises"
  shows "fst (start_emission env params s) = Inr False \<and>
         state (snd (start_emission env params s)) = EMITTING \<and>
         current_power (snd (start_emission env params s)) = power_req params \<and>
         snd (start_emission env params s) \<noteq> s"
proof -
  have "post (start_emission env params) s (\<lambda>r s'.
          r = Inr False \<and> state s' = EMITTING \<and> current_power s' = power_req params)"
    using assms
    by (simp add: op_posts post_ret post_raise post_andThen post_try_except post_assign post_logging
        post_perform_ok post_perform_raises post_update_state valid_passes)
  then show ?thesis using assms(1) by (auto simp add: post_eq)
qed

text \<open>C10, witness: the stub subsystems with a monitor that fails to start.\<close>

theorem start_emission_false_after_commit_witness:
  "state ready_controller = READY \<and> current_power ready_controller = Finite 0 \<and>
   fst (start_emission (stub_except Mon_start_power_monitoring Raises) demo_params ready_controller) = Inr False \<and>
   state (snd (start_emission (stub_except Mon_start_power_monitoring Raises) demo_params ready_controller)) = EMITTING \<and>
   current_power (snd (start_emission (stub_except Mon_start_power_monitoring Raises) demo_params ready_controller))
     = Finite (25 / 10 ^ 10)"
proof -
  have h: "state ready_controller = READY" "valid_emission_parameters (config ready_controller) demo_params"
    by (simp_all add: ready_controller_fields demo_params_valid)
  have e: "\<forall>w. fst (stub_except Mon_start_power_monitoring Raises (Jet_configure_emission demo_params) w) \<noteq> Raises"
    "\<forall>w. fst (stub_except Mon_start_power_monitoring Raises (Opt_configure_optimization demo_params) w) \<noteq> Raises"
    "\<forall>w. fst (stub_except Mon_start_power_monitoring Raises (Mon_configure_monitoring demo_params) w) \<noteq> Raises"
    "\<forall>w. fst (stub_except Mon_start_power_monitoring Raises Opt_start_real_time_optimization w) \<noteq> Raises"
    "\<forall>w. fst (stub_except Mon_start_power_monitoring Raises Mon_start_power_monitoring w) = Raises"
    by (simp_all add: stub_except_def stub_subsystems_def)
  show ?thesis
    using h start_emission_false_after_commit [OF h e]
    by (simp add: ready_controller_fields demo_params_def)
qed

end
